theory Spec2Isabelle
  imports Main "HOL-Library.Word"
begin

unbundle bit_operations_syntax

section \<open>The disk cache of \<^verbatim>\<open>cache.go\<close>\<close>

text \<open>
  The package keeps one file per cache identifier. The file holds a 4-byte little-endian
  length, the gob encoding of the \<^verbatim>\<open>Cache\<close> struct (the metadata) and the gob encoding
  of the cached slice. \<^verbatim>\<open>New\<close> opens a cache, \<^verbatim>\<open>Set\<close> rewrites the file and \<^verbatim>\<open>Get\<close>
  reads the slice back.

  The embedding is sequential. What the Go code takes from its environment is made
  explicit: the file system is a value passed in and returned, the clock reading of
  \<^verbatim>\<open>time.Now()\<close> is an argument, the package variable \<^verbatim>\<open>Location\<close> is an argument, and
  the \<^verbatim>\<open>encoding/gob\<close> wire format is a parameter. The mutex of a handle only serialises
  concurrent callers; in a sequential run it is free at entry and released by the
  deferred unlock, so it carries no state here.
\<close>

subsection \<open>Basic types\<close>

type_synonym byte = "8 word"
type_synonym uint32 = "32 word"

text \<open>
  An instant of the clock, in nanoseconds since the Unix epoch. \<^verbatim>\<open>time.Duration\<close> is an
  \<^verbatim>\<open>int64\<close> of nanoseconds. One clock is assumed for \<^verbatim>\<open>time.Now()\<close>, \<^verbatim>\<open>Add\<close> and
  \<^verbatim>\<open>Before\<close>.
\<close>

type_synonym Time = int
type_synonym Duration = "64 word"

text \<open>
  The zero value \<^verbatim>\<open>time.Time{}\<close> is the first of January of the year 1, 00:00:00 UTC, that
  is 62135596800 seconds before the Unix epoch.
\<close>

definition zero_Time :: Time where
  "zero_Time = - 62135596800000000000"

definition Time_Add :: "Time \<Rightarrow> Duration \<Rightarrow> Time" where
  "Time_Add t d = t + sint d"

definition Time_Before :: "Time \<Rightarrow> Time \<Rightarrow> bool" where
  "Time_Before t u = (t < u)"

text \<open>The struct \<^verbatim>\<open>Cache[T]\<close>: its three exported fields.\<close>

record Cache =
  Identifier :: string
  Expire :: bool
  Expiry :: Time

datatype error = EOF | PathError | EINVAL | EncodeError

subsection \<open>\<^verbatim>\<open>binary.LittleEndian\<close>\<close>

text \<open>
  \<^verbatim>\<open>PutUint32(b, v)\<close> fills the four bytes of \<^verbatim>\<open>b\<close>; \<^verbatim>\<open>Uint32(b)\<close> reads them. Both are
  only ever called on slices made with \<^verbatim>\<open>make([]byte, 4)\<close>.
\<close>

definition PutUint32 :: "uint32 \<Rightarrow> byte list" where
  "PutUint32 v = [ucast v, ucast (drop_bit 8 v), ucast (drop_bit 16 v), ucast (drop_bit 24 v)]"

definition Uint32 :: "byte list \<Rightarrow> uint32" where
  "Uint32 b = ucast (b ! 0) OR push_bit 8 (ucast (b ! 1)) OR push_bit 16 (ucast (b ! 2))
                OR push_bit 24 (ucast (b ! 3))"

subsection \<open>\<^verbatim>\<open>path.Join\<close>\<close>

text \<open>
  \<^verbatim>\<open>path.Join(Location, c.Identifier)\<close> joins the non-empty elements with a slash and
  cleans the result: empty and \<^verbatim>\<open>.\<close> elements go, a \<^verbatim>\<open>..\<close> element removes the element
  before it (or is dropped at the root, or is kept at the start of a relative path), and
  an empty result is \<^verbatim>\<open>.\<close>.
\<close>

fun split_slash :: "string \<Rightarrow> string list" where
  "split_slash [] = [[]]"
| "split_slash (c # cs) =
     (if c = CHR ''/'' then [] # split_slash cs
      else (case split_slash cs of
              [] \<Rightarrow> [[c]]
            | e # es \<Rightarrow> (c # e) # es))"

fun join_slash :: "string list \<Rightarrow> string" where
  "join_slash [] = []"
| "join_slash [e] = e"
| "join_slash (e # es) = e @ ''/'' @ join_slash es"

fun clean_elems :: "bool \<Rightarrow> string list \<Rightarrow> string list \<Rightarrow> string list" where
  "clean_elems rooted out [] = rev out"
| "clean_elems rooted out (e # es) =
     (if e = [] \<or> e = ''.'' then clean_elems rooted out es
      else if e = ''..'' then
        (case out of
           [] \<Rightarrow> if rooted then clean_elems rooted [] es else clean_elems rooted [''..''] es
         | t # ts \<Rightarrow>
             if t = ''..'' then clean_elems rooted (''..'' # out) es
             else clean_elems rooted ts es)
      else clean_elems rooted (e # out) es)"

definition path_Clean :: "string \<Rightarrow> string" where
  "path_Clean p =
     (if p = [] then ''.''
      else
        let rooted = (hd p = CHR ''/'');
            s = (if rooted then ''/'' else []) @ join_slash (clean_elems rooted [] (split_slash p))
        in if s = [] then ''.'' else s)"

definition path_Join :: "string \<Rightarrow> string \<Rightarrow> string" where
  "path_Join a b =
     (if length a + length b = 0 then []
      else if a = [] then path_Clean b
      else path_Clean (a @ ''/'' @ b))"

subsection \<open>The file system\<close>

text \<open>
  A path names a regular file with its bytes, or nothing, or something that can be
  neither opened nor removed (a path under a missing directory, a non-empty directory).
  Reads, writes and seeks on an open regular file follow POSIX; a full disk or a failing
  device is not modelled, so a write never fails.
\<close>

datatype node = Regular "byte list" | Unavailable

type_synonym fsys = "string \<Rightarrow> node option"

record File =
  fname :: string
  fpos :: nat

definition contents :: "fsys \<Rightarrow> File \<Rightarrow> byte list" where
  "contents fs f = (case fs (fname f) of Some (Regular d) \<Rightarrow> d | _ \<Rightarrow> [])"

text \<open>
  \<^verbatim>\<open>os.OpenFile(name, os.O_CREATE|os.O_RDWR, 0644)\<close>, the only way the package opens a
  file: a missing file is created empty.
\<close>

definition os_OpenFile :: "fsys \<Rightarrow> string \<Rightarrow> fsys \<times> (error + File)" where
  "os_OpenFile fs p =
     (case fs p of
        None \<Rightarrow> (fs(p \<mapsto> Regular []), Inr \<lparr>fname = p, fpos = 0\<rparr>)
      | Some (Regular d) \<Rightarrow> (fs, Inr \<lparr>fname = p, fpos = 0\<rparr>)
      | Some Unavailable \<Rightarrow> (fs, Inl PathError))"

text \<open>
  One call of \<^verbatim>\<open>file.Read\<close> or of the underlying \<^verbatim>\<open>read\<close> transfers at most
  \<^verbatim>\<open>maxRW\<close> bytes, \<open>2 ^ 30\<close> in package \<^verbatim>\<open>internal/poll\<close>.
\<close>

definition maxRW :: nat where
  "maxRW = 2 ^ 30"

text \<open>
  \<^verbatim>\<open>file.Read(b)\<close>: nothing to do for an empty \<^verbatim>\<open>b\<close>; \<^verbatim>\<open>io.EOF\<close> when no byte is left;
  otherwise the bytes available, up to \<^verbatim>\<open>len(b)\<close> and up to \<^verbatim>\<open>maxRW\<close>, go to the front
  of \<^verbatim>\<open>b\<close> and the rest of \<^verbatim>\<open>b\<close> keeps its content. The result is the file, the buffer,
  the count and the error.
\<close>

definition File_Read :: "fsys \<Rightarrow> File \<Rightarrow> byte list \<Rightarrow> File \<times> byte list \<times> nat \<times> error option" where
  "File_Read fs f b =
     (if b = [] then (f, b, 0, None)
      else
        let avail = drop (fpos f) (contents fs f) in
        if avail = [] then (f, b, 0, Some EOF)
        else
          let n = min (min (length b) maxRW) (length avail)
          in (f\<lparr>fpos := fpos f + n\<rparr>, take n avail @ drop n b, n, None))"

text \<open>
  \<^verbatim>\<open>file.Write(b)\<close> at the current offset; a hole before the offset reads as zeros.
  \<^verbatim>\<open>Write\<close> loops until all of \<^verbatim>\<open>b\<close> is written.
\<close>

definition File_Write :: "fsys \<Rightarrow> File \<Rightarrow> byte list \<Rightarrow> fsys \<times> File \<times> nat \<times> error option" where
  "File_Write fs f b =
     (if b = [] then (fs, f, 0, None)
      else
        let d = contents fs f;
            d' = take (fpos f) (d @ replicate (fpos f - length d) 0) @ b
                   @ drop (fpos f + length b) d
        in (fs(fname f \<mapsto> Regular d'), f\<lparr>fpos := fpos f + length b\<rparr>, length b, None))"

text \<open>
  \<^verbatim>\<open>file.Seek(offset, whence)\<close> with whence 0 (from the start), 1 (from the current
  offset) or 2 (from the end); a negative target is an error.
\<close>

definition File_Seek :: "fsys \<Rightarrow> File \<Rightarrow> int \<Rightarrow> nat \<Rightarrow> error + File" where
  "File_Seek fs f off whence =
     (if 2 < whence then Inl EINVAL
      else
        let base = (if whence = 0 then 0
                    else if whence = 1 then int (fpos f)
                    else int (length (contents fs f)));
            target = base + off
        in if target < 0 then Inl EINVAL else Inr (f\<lparr>fpos := nat target\<rparr>))"

definition File_Truncate :: "fsys \<Rightarrow> File \<Rightarrow> nat \<Rightarrow> fsys \<times> error option" where
  "File_Truncate fs f sz =
     (let d = contents fs f
      in (fs(fname f \<mapsto> Regular (take sz d @ replicate (sz - length d) 0)), None))"

text \<open>
  \<^verbatim>\<open>file.ReadFrom(cb)\<close> on a \<^verbatim>\<open>bytes.Buffer\<close>: the unread bytes of the buffer are written
  to the file and the buffer is drained, so that its \<^verbatim>\<open>Len()\<close> is 0 afterwards. A buffer
  is the list of its unread bytes. The result is the file system, the file, the buffer,
  the count and the error.
\<close>

definition Buffer_Len :: "byte list \<Rightarrow> nat" where
  "Buffer_Len cb = length cb"

definition File_ReadFrom ::
  "fsys \<Rightarrow> File \<Rightarrow> byte list \<Rightarrow> fsys \<times> File \<times> byte list \<times> nat \<times> error option" where
  "File_ReadFrom fs f cb =
     (case File_Write fs f cb of
        (fs', f', n, None) \<Rightarrow> (fs', f', [], n, None)
      | (fs', f', n, Some e) \<Rightarrow> (fs', f', drop n cb, n, Some e))"

text \<open>\<^verbatim>\<open>os.Remove(name)\<close>; the package ignores its error.\<close>

definition os_Remove :: "fsys \<Rightarrow> string \<Rightarrow> fsys \<times> error option" where
  "os_Remove fs p =
     (case fs p of
        Some (Regular d) \<Rightarrow> (fs(p := None), None)
      | _ \<Rightarrow> (fs, Some PathError))"

subsection \<open>\<^verbatim>\<open>encoding/gob\<close>\<close>

text \<open>
  The gob package is not part of the repository; its wire format is a parameter. What
  is fixed here is how gob treats a struct, as its documentation states: a field that
  holds the zero value of its type is omitted from the transmission, and decoding
  assigns the fields that were transmitted and leaves every other field of the
  destination as it was. The fields a stream carries for a \<^verbatim>\<open>Cache\<close> are therefore
  optional. The unexported mutex is never transmitted. An empty \<^verbatim>\<open>Identifier\<close>, a false
  \<^verbatim>\<open>Expire\<close> and a zero \<^verbatim>\<open>Expiry\<close> are zero values. (A \<^verbatim>\<open>Time\<close> that \<^verbatim>\<open>time.Now()\<close> returns
  carries a monotonic clock reading and is not the zero value; its instant is not the
  year 1 either.)
\<close>

record fields =
  f_Identifier :: "string option"
  f_Expire :: "bool option"
  f_Expiry :: "Time option"

definition struct_fields :: "Cache \<Rightarrow> fields" where
  "struct_fields c =
     \<lparr>f_Identifier = (if Identifier c = [] then None else Some (Identifier c)),
      f_Expire = (if Expire c then Some True else None),
      f_Expiry = (if Expiry c = zero_Time then None else Some (Expiry c))\<rparr>"

definition assign_fields :: "fields \<Rightarrow> Cache \<Rightarrow> Cache" where
  "assign_fields d c =
     \<lparr>Identifier = (case f_Identifier d of None \<Rightarrow> Identifier c | Some s \<Rightarrow> s),
      Expire = (case f_Expire d of None \<Rightarrow> Expire c | Some b \<Rightarrow> b),
      Expiry = (case f_Expiry d of None \<Rightarrow> Expiry c | Some t \<Rightarrow> t)\<rparr>"

text \<open>
  The wire format: the bytes of a struct's transmitted fields, and the bytes of a slice
  of items. Encoding may fail; for a slice, \<^verbatim>\<open>encode_slice\<close> gives the bytes that
  reach the writer and whether the encoding succeeded. Decoding reads from the front of
  the bytes it is given.
\<close>

record 'a gob =
  encode_struct :: "fields \<Rightarrow> byte list option"
  decode_struct :: "byte list \<Rightarrow> fields option"
  encode_slice :: "'a list \<Rightarrow> byte list \<times> bool"
  decode_slice :: "byte list \<Rightarrow> 'a list option"

text \<open>The one assumption on the wire format: what was encoded decodes to itself.\<close>

definition gob_sound :: "'a gob \<Rightarrow> bool" where
  "gob_sound g \<longleftrightarrow>
     (\<forall>d bs. encode_struct g d = Some bs \<longrightarrow> decode_struct g bs = Some d) \<and>
     (\<forall>xs bs. encode_slice g xs = (bs, True) \<longrightarrow> decode_slice g bs = Some xs)"

text \<open>\<^verbatim>\<open>gob.NewEncoder(cb).Encode(c)\<close> into an empty buffer.\<close>

definition gob_Encode_Cache :: "'a gob \<Rightarrow> Cache \<Rightarrow> byte list option" where
  "gob_Encode_Cache g c = encode_struct g (struct_fields c)"

text \<open>\<^verbatim>\<open>gob.NewDecoder(cbytes).Decode(c)\<close>: \<^verbatim>\<open>None\<close> is the decoding error.\<close>

definition gob_Decode_Cache :: "'a gob \<Rightarrow> byte list \<Rightarrow> Cache \<Rightarrow> Cache option" where
  "gob_Decode_Cache g cb c =
     (case decode_struct g cb of None \<Rightarrow> None | Some d \<Rightarrow> Some (assign_fields d c))"

text \<open>\<^verbatim>\<open>gob.NewEncoder(file).Encode(items)\<close>: the bytes go to the file at its offset.\<close>

definition gob_Encode_items :: "'a gob \<Rightarrow> fsys \<Rightarrow> File \<Rightarrow> 'a list \<Rightarrow> fsys \<times> error option" where
  "gob_Encode_items g fs f items =
     (case encode_slice g items of
        (bs, ok) \<Rightarrow>
          (case File_Write fs f bs of
             (fs', f', n, Some e) \<Rightarrow> (fs', Some e)
           | (fs', f', n, None) \<Rightarrow> (fs', if ok then None else Some EncodeError)))"

text \<open>
  \<^verbatim>\<open>gob.NewDecoder(file).Decode(items)\<close> into the empty slice \<^verbatim>\<open>&[]T{}\<close>: the decoder
  reads the file from its offset on.
\<close>

definition gob_Decode_items :: "'a gob \<Rightarrow> fsys \<Rightarrow> File \<Rightarrow> 'a list option" where
  "gob_Decode_items g fs f = decode_slice g (drop (fpos f) (contents fs f))"

subsection \<open>\<^verbatim>\<open>New\<close>, \<^verbatim>\<open>Set\<close> and \<^verbatim>\<open>Get\<close>\<close>

text \<open>
  \<^verbatim>\<open>New(id, expiry)\<close>, with \<^verbatim>\<open>ident\<close> for the identifier and the clock reading \<^verbatim>\<open>now\<close>.
  The result \<^verbatim>\<open>None\<close> is the \<^verbatim>\<open>nil\<close> pointer. The file system comes back because opening
  may create the file.
\<close>

definition New ::
  "'a gob \<Rightarrow> string \<Rightarrow> string \<Rightarrow> Duration \<Rightarrow> Time \<Rightarrow> fsys \<Rightarrow> fsys \<times> Cache option" where
  "New g Location ident expiry now fs =
     (let c = \<lparr>Identifier = ident, Expire = (expiry \<noteq> 0), Expiry = Time_Add now expiry\<rparr>;
          hb = replicate 4 0
      in case os_OpenFile fs (path_Join Location (Identifier c)) of
           (fs1, Inl e) \<Rightarrow> (fs1, None)
         | (fs1, Inr file) \<Rightarrow>
             (case File_Read fs1 file hb of
                (file1, hb1, n, Some e) \<Rightarrow> (fs1, Some c)
              | (file1, hb1, n, None) \<Rightarrow>
                  (let hlen = Uint32 hb1;
                       cb = replicate (unat hlen) 0
                   in (case File_Seek fs1 file1 4 0 of
                         Inl e \<Rightarrow> (fs1, Some c)
                       | Inr file2 \<Rightarrow>
                           (case File_Read fs1 file2 cb of
                              (file3, cb1, m, Some e) \<Rightarrow> (fs1, Some c)
                            | (file3, cb1, m, None) \<Rightarrow>
                                (case gob_Decode_Cache g cb1 c of
                                   None \<Rightarrow> (fs1, None)
                                 | Some c' \<Rightarrow> (fs1, Some c')))))))"

text \<open>
  \<^verbatim>\<open>c.Set(items)\<close>. The argument is the slice behind the pointer (gob panics on a \<^verbatim>\<open>nil\<close>
  pointer; that call is not modelled). The result is the handle after the call, the file
  system and the error (\<^verbatim>\<open>None\<close> is \<^verbatim>\<open>nil\<close>). The seek after \<^verbatim>\<open>ReadFrom\<close> moves by the
  length of the buffer at that moment.
\<close>

definition Set ::
  "'a gob \<Rightarrow> string \<Rightarrow> Cache \<Rightarrow> 'a list \<Rightarrow> fsys \<Rightarrow> Cache \<times> fsys \<times> error option" where
  "Set g Location c items fs =
     (case gob_Encode_Cache g c of
        None \<Rightarrow> (c, fs, Some EncodeError)
      | Some cb \<Rightarrow>
          (let hl = (of_nat (Buffer_Len cb) :: uint32);
               hlb = PutUint32 hl
           in (case os_OpenFile fs (path_Join Location (Identifier c)) of
                 (fs1, Inl e) \<Rightarrow> (c, fs1, Some e)
               | (fs1, Inr file) \<Rightarrow>
                   (let fs2 = fst (File_Truncate fs1 file 0)
                    in (case File_Write fs2 file hlb of
                          (fs3, file1, n, Some e) \<Rightarrow> (c, fs3, Some e)
                        | (fs3, file1, n, None) \<Rightarrow>
                            (case File_Seek fs3 file1 4 0 of
                               Inl e \<Rightarrow> (c, fs3, Some e)
                             | Inr file2 \<Rightarrow>
                                 (case File_ReadFrom fs3 file2 cb of
                                    (fs4, file3, cb', m, Some e) \<Rightarrow> (c, fs4, Some e)
                                  | (fs4, file3, cb', m, None) \<Rightarrow>
                                      (case File_Seek fs4 file3 (int (Buffer_Len cb')) 1 of
                                         Inl e \<Rightarrow> (c, fs4, Some e)
                                       | Inr file4 \<Rightarrow>
                                           (case gob_Encode_items g fs4 file4 items of
                                              (fs5, Some e) \<Rightarrow> (c, fs5, Some e)
                                            | (fs5, None) \<Rightarrow> (c, fs5, None))))))))))"

text \<open>
  \<^verbatim>\<open>c.Get()\<close> with the clock reading \<^verbatim>\<open>now\<close>. The result is the handle after the call,
  the file system and the items (\<^verbatim>\<open>None\<close> is the \<^verbatim>\<open>nil\<close> pointer).
\<close>

definition Get ::
  "'a gob \<Rightarrow> string \<Rightarrow> Cache \<Rightarrow> Time \<Rightarrow> fsys \<Rightarrow> Cache \<times> fsys \<times> 'a list option" where
  "Get g Location c now fs =
     (if Time_Before (Expiry c) now \<and> Expire c
      then (c, fst (os_Remove fs (path_Join Location (Identifier c))), None)
      else
        case os_OpenFile fs (path_Join Location (Identifier c)) of
          (fs1, Inl e) \<Rightarrow> (c, fs1, None)
        | (fs1, Inr file) \<Rightarrow>
            (case File_Read fs1 file (replicate 4 0) of
               (file1, hb, n, Some e) \<Rightarrow> (c, fs1, None)
             | (file1, hb, n, None) \<Rightarrow>
                 (case File_Seek fs1 file1 4 0 of
                    Inl e \<Rightarrow> (c, fs1, None)
                  | Inr file2 \<Rightarrow>
                      (let offset = Uint32 hb
                       in (case File_Seek fs1 file2 (uint offset) 1 of
                             Inl e \<Rightarrow> (c, fs1, None)
                           | Inr file3 \<Rightarrow>
                               (case gob_Decode_items g fs1 file3 of
                                  None \<Rightarrow> (c, fs1, None)
                                | Some items \<Rightarrow> (c, fs1, Some items)))))))"

subsection \<open>Notions for the statements\<close>

text \<open>
  The four bytes \<^verbatim>\<open>hb\<close> after \<^verbatim>\<open>file.Read(hb)\<close> on a file with the bytes \<^verbatim>\<open>d\<close>, read
  from offset 0 into the zeroed buffer: the first bytes of the file, and zeros where the
  file is shorter than four bytes.
\<close>

definition header :: "byte list \<Rightarrow> byte list" where
  "header d = take 4 d @ replicate (4 - length d) 0"

text \<open>The handle that \<^verbatim>\<open>New\<close> builds before it looks at the file.\<close>

definition default_handle :: "string \<Rightarrow> Duration \<Rightarrow> Time \<Rightarrow> Cache" where
  "default_handle ident expiry now =
     \<lparr>Identifier = ident, Expire = (expiry \<noteq> 0), Expiry = Time_Add now expiry\<rparr>"

text \<open>
  The buffer \<^verbatim>\<open>cb\<close> of \<^verbatim>\<open>New\<close> after the one \<^verbatim>\<open>file.Read(cb)\<close> at offset 4: as long as the
  header says, with the bytes that the call transferred from the file after the header
  in front, and zeros behind them.
\<close>

definition meta_block :: "byte list \<Rightarrow> byte list" where
  "meta_block d =
     (let L = unat (Uint32 (header d));
          n = min (min L maxRW) (length d - 4)
      in take n (drop 4 d) @ replicate (L - n) 0)"

text \<open>
  \<^verbatim>\<open>Set\<close> converts the length of the metadata block with \<^verbatim>\<open>uint32(cb.Len())\<close>, which
  keeps the length modulo \<open>2 ^ 32\<close>. The block of a handle fits the header when it is
  shorter than that.
\<close>

definition header_fits :: "'a gob \<Rightarrow> Cache \<Rightarrow> bool" where
  "header_fits g c =
     (case gob_Encode_Cache g c of None \<Rightarrow> True | Some cb \<Rightarrow> length cb < 2 ^ 32)"

text \<open>
  \<^verbatim>\<open>New\<close> reads the metadata block with one call of \<^verbatim>\<open>file.Read\<close>. The block of a handle
  is read whole when it is not longer than \<^verbatim>\<open>maxRW\<close>.
\<close>

definition read_fits :: "'a gob \<Rightarrow> Cache \<Rightarrow> bool" where
  "read_fits g c =
     (case gob_Encode_Cache g c of None \<Rightarrow> True | Some cb \<Rightarrow> length cb \<le> maxRW)"

subsection \<open>A concrete wire format\<close>

text \<open>
  An instance of the wire-format parameter, on which the functions above can be run:
  numbers are base-128 varints, a string is its length and its bytes, a struct is its
  transmitted fields, each behind its field number, closed by a zero byte, and a slice
  of bytes is its length and its bytes.
\<close>

fun put_uvarint :: "nat \<Rightarrow> byte list" where
  "put_uvarint n =
     (if n < 128 then [of_nat n] else of_nat (128 + n mod 128) # put_uvarint (n div 128))"

declare put_uvarint.simps [simp del]

fun get_uvarint :: "byte list \<Rightarrow> (nat \<times> byte list) option" where
  "get_uvarint [] = None"
| "get_uvarint (b # bs) =
     (if unat b < 128 then Some (unat b, bs)
      else (case get_uvarint bs of
              None \<Rightarrow> None
            | Some (m, r) \<Rightarrow> Some (unat b - 128 + 128 * m, r)))"

definition put_varint :: "int \<Rightarrow> byte list" where
  "put_varint i = put_uvarint (if 0 \<le> i then 2 * nat i else 2 * nat (- i) - 1)"

definition get_varint :: "byte list \<Rightarrow> (int \<times> byte list) option" where
  "get_varint bs =
     (case get_uvarint bs of
        None \<Rightarrow> None
      | Some (n, r) \<Rightarrow> Some (if even n then int (n div 2) else - int ((n + 1) div 2), r))"

definition put_string :: "string \<Rightarrow> byte list" where
  "put_string s = put_uvarint (length s) @ map (\<lambda>c. of_nat (of_char c)) s"

definition get_string :: "byte list \<Rightarrow> (string \<times> byte list) option" where
  "get_string bs =
     (case get_uvarint bs of
        None \<Rightarrow> None
      | Some (n, r) \<Rightarrow>
          if length r < n then None
          else Some (map (\<lambda>b. char_of (unat b)) (take n r), drop n r))"

definition put_fields :: "fields \<Rightarrow> byte list" where
  "put_fields d =
     (case f_Identifier d of None \<Rightarrow> [] | Some s \<Rightarrow> 1 # put_string s) @
     (case f_Expire d of None \<Rightarrow> [] | Some b \<Rightarrow> [2, if b then 1 else 0]) @
     (case f_Expiry d of None \<Rightarrow> [] | Some t \<Rightarrow> 3 # put_varint t) @ [0]"

definition get_Identifier :: "byte list \<Rightarrow> (string option \<times> byte list) option" where
  "get_Identifier bs =
     (case bs of
        [] \<Rightarrow> Some (None, bs)
      | b # r \<Rightarrow>
          if b = 1
          then (case get_string r of None \<Rightarrow> None | Some (s, r') \<Rightarrow> Some (Some s, r'))
          else Some (None, bs))"

definition get_Expire :: "byte list \<Rightarrow> (bool option \<times> byte list) option" where
  "get_Expire bs =
     (case bs of
        [] \<Rightarrow> Some (None, bs)
      | b # r \<Rightarrow>
          if b = 2
          then (case r of
                  [] \<Rightarrow> None
                | v # r' \<Rightarrow>
                    if v = 0 then Some (Some False, r')
                    else if v = 1 then Some (Some True, r')
                    else None)
          else Some (None, bs))"

definition get_Expiry :: "byte list \<Rightarrow> (Time option \<times> byte list) option" where
  "get_Expiry bs =
     (case bs of
        [] \<Rightarrow> Some (None, bs)
      | b # r \<Rightarrow>
          if b = 3
          then (case get_varint r of None \<Rightarrow> None | Some (t, r') \<Rightarrow> Some (Some t, r'))
          else Some (None, bs))"

definition get_fields :: "byte list \<Rightarrow> fields option" where
  "get_fields bs =
     (case get_Identifier bs of
        None \<Rightarrow> None
      | Some (i, r1) \<Rightarrow>
          (case get_Expire r1 of
             None \<Rightarrow> None
           | Some (e, r2) \<Rightarrow>
               (case get_Expiry r2 of
                  None \<Rightarrow> None
                | Some (t, r3) \<Rightarrow>
                    (case r3 of
                       [] \<Rightarrow> None
                     | z # r4 \<Rightarrow>
                         if z = 0
                         then Some \<lparr>f_Identifier = i, f_Expire = e, f_Expiry = t\<rparr>
                         else None))))"

definition put_slice :: "byte list \<Rightarrow> byte list \<times> bool" where
  "put_slice xs = (put_uvarint (length xs) @ xs, True)"

definition get_slice :: "byte list \<Rightarrow> byte list option" where
  "get_slice bs =
     (case get_uvarint bs of
        None \<Rightarrow> None
      | Some (n, r) \<Rightarrow> if length r < n then None else Some (take n r))"

definition tlv_gob :: "byte gob" where
  "tlv_gob =
     \<lparr>encode_struct = (\<lambda>d. Some (put_fields d)),
      decode_struct = get_fields,
      encode_slice = put_slice,
      decode_slice = get_slice\<rparr>"

text \<open>
  Concrete inputs: a handle for the identifier \<^verbatim>\<open>k\<close>, a file system that holds only the
  file \<^verbatim>\<open>/tmp/k\<close>, and the bytes that \<^verbatim>\<open>Set\<close> writes in the concrete wire format for the
  items 1, 2, 3 under a handle that expires at 105 and under one that never expires.
\<close>

abbreviation handle_k :: "bool \<Rightarrow> Time \<Rightarrow> Cache" where
  "handle_k e t \<equiv> \<lparr>Identifier = ''k'', Expire = e, Expiry = t\<rparr>"

abbreviation disk_k :: "byte list \<Rightarrow> fsys" where
  "disk_k d \<equiv> [''/tmp/k'' \<mapsto> Regular d]"

abbreviation file_123 :: "byte list" where
  "file_123 \<equiv> [9, 0, 0, 0, 1, 1, 107, 2, 1, 3, 210, 1, 0, 3, 1, 2, 3]"

abbreviation file_123_forever :: "byte list" where
  "file_123_forever \<equiv> [7, 0, 0, 0, 1, 1, 107, 3, 200, 1, 0, 3, 1, 2, 3]"

text \<open>The same for the items 7, 8 under the handle that expires at 105.\<close>

abbreviation file_78 :: "byte list" where
  "file_78 \<equiv> [9, 0, 0, 0, 1, 1, 107, 2, 1, 3, 210, 1, 0, 2, 7, 8]"

text \<open>
  An identifier of \<open>2 ^ 32\<close> characters that \<^verbatim>\<open>path.Join\<close> resolves to the same file
  \<^verbatim>\<open>/tmp/k\<close>: slashes, then \<^verbatim>\<open>k\<close>.
\<close>

definition long_id :: string where
  "long_id = replicate (2 ^ 32 - 1) CHR ''/'' @ ''k''"

section \<open>Properties\<close>

subsection \<open>The header and the concrete wire format\<close>

lemma length_PutUint32: "length (PutUint32 v) = 4"
  by (simp add: PutUint32_def)

lemma PutUint32_nonempty: "PutUint32 v \<noteq> []"
  by (simp add: PutUint32_def)

lemma Uint32_PutUint32: "Uint32 (PutUint32 v) = v"
proof (rule bit_word_eqI)
  fix n
  assume "n < LENGTH(32)"
  then consider "n < 8" | "8 \<le> n \<and> n < 16" | "16 \<le> n \<and> n < 24" | "24 \<le> n \<and> n < 32"
    by fastforce
  then show "bit (Uint32 (PutUint32 v)) n = bit v n"
    by cases (auto simp add: Uint32_def PutUint32_def bit_simps)
qed

lemma header_PutUint32: "header (PutUint32 v @ bs) = PutUint32 v"
  by (simp add: header_def length_PutUint32)

lemma unat_header_length:
  "n < 2 ^ 32 \<Longrightarrow> unat (Uint32 (header (PutUint32 (of_nat n) @ bs))) = n"
  by (simp add: header_PutUint32 Uint32_PutUint32 unat_of_nat)

lemma get_put_uvarint: "get_uvarint (put_uvarint n @ r) = Some (n, r)"
proof (induction n rule: put_uvarint.induct)
  case (1 n)
  show ?case
  proof (cases "n < 128")
    case True
    then show ?thesis by (simp add: put_uvarint.simps[of n] unat_of_nat)
  next
    case False
    have "128 + n mod 128 < 256" by simp
    then have "(128 + n mod 128) mod 2 ^ LENGTH(8) = 128 + n mod 128" by simp
    then have "unat (of_nat (128 + n mod 128) :: byte) = 128 + n mod 128"
      by (simp only: unat_of_nat)
    with False 1 show ?thesis
      by (simp add: put_uvarint.simps[of n])
  qed
qed

lemma get_put_varint: "get_varint (put_varint i @ r) = Some (i, r)"
proof (cases "0 \<le> i")
  case True
  then show ?thesis by (simp add: get_varint_def put_varint_def get_put_uvarint)
next
  case False
  then have pos: "0 < nat (- i)" by simp
  then have odd: "odd (2 * nat (- i) - 1)" by simp
  from pos have half: "(2 * nat (- i) - 1 + 1) div 2 = nat (- i)" by simp
  from False odd half show ?thesis
    by (simp add: get_varint_def put_varint_def get_put_uvarint)
qed

lemma char_byte: "char_of (unat (of_nat (of_char c) :: byte)) = c"
  by (simp add: unat_of_nat)

lemma get_put_string: "get_string (put_string s @ r) = Some (s, r)"
  by (simp add: get_string_def put_string_def get_put_uvarint char_byte comp_def)

lemma get_put_fields: "get_fields (put_fields d) = Some d"
  by (cases d)
     (auto simp add: get_fields_def put_fields_def get_Identifier_def get_Expire_def
        get_Expiry_def get_put_string get_put_varint split: option.splits)

lemma get_put_slice: "put_slice xs = (bs, ok) \<Longrightarrow> get_slice bs = Some xs"
  by (auto simp add: put_slice_def get_slice_def get_put_uvarint)

lemma tlv_gob_sound: "gob_sound tlv_gob"
  by (auto simp add: gob_sound_def tlv_gob_def get_put_fields get_put_slice)

subsection \<open>What the three functions compute\<close>

lemma seek_start: "0 \<le> k \<Longrightarrow> File_Seek fs f k 0 = Inr (f\<lparr>fpos := nat k\<rparr>)"
  by (simp add: File_Seek_def)

lemma seek_current:
  "File_Seek fs f (uint w) (Suc 0) = Inr (f\<lparr>fpos := fpos f + unat w\<rparr>)"
proof -
  have "0 \<le> uint w" by simp
  then have "\<not> int (fpos f) + uint w < 0" by linarith
  then show ?thesis
    by (simp add: File_Seek_def Let_def nat_add_distrib)
qed

lemma min_4_maxRW: "min (4 :: nat) maxRW = 4"
  by (simp add: maxRW_def)

lemma Read_header:
  "File_Read fs f (replicate 4 0) =
     (if drop (fpos f) (contents fs f) = [] then (f, replicate 4 0, 0, Some EOF)
      else (f\<lparr>fpos := fpos f + min 4 (length (contents fs f) - fpos f)\<rparr>,
            take (min 4 (length (contents fs f) - fpos f)) (drop (fpos f) (contents fs f))
              @ replicate (4 - min 4 (length (contents fs f) - fpos f)) 0,
            min 4 (length (contents fs f) - fpos f), None))"
  unfolding File_Read_def Let_def
  by (simp add: min_4_maxRW)

lemma Read_block:
  "File_Read fs f (replicate L 0) =
     (if L = 0 then (f, [], 0, None)
      else if drop (fpos f) (contents fs f) = [] then (f, replicate L 0, 0, Some EOF)
      else (f\<lparr>fpos := fpos f + min (min L maxRW) (length (contents fs f) - fpos f)\<rparr>,
            take (min (min L maxRW) (length (contents fs f) - fpos f))
                (drop (fpos f) (contents fs f))
              @ replicate (L - min (min L maxRW) (length (contents fs f) - fpos f)) 0,
            min (min L maxRW) (length (contents fs f) - fpos f), None))"
  by (simp add: File_Read_def Let_def)

text \<open>
  \<^verbatim>\<open>Set\<close>, step by step: the metadata is encoded first; the file is opened, truncated, and
  receives the header, the metadata block and, right after it, what the encoder of the
  items writes. The buffer is empty after \<^verbatim>\<open>ReadFrom\<close>, so the relative seek stays in
  place.
\<close>

lemma Set_eq:
  assumes "path_Join loc (Identifier c) = p"
  shows "Set g loc c items fs =
     (case gob_Encode_Cache g c of
        None \<Rightarrow> (c, fs, Some EncodeError)
      | Some mb \<Rightarrow>
          if fs p = Some Unavailable then (c, fs, Some PathError)
          else
            (case encode_slice g items of
               (pb, ok) \<Rightarrow>
                 (c, fs(p \<mapsto> Regular (PutUint32 (of_nat (length mb)) @ mb @ pb)),
                  if ok then None else Some EncodeError)))"
  using assms
  by (auto simp add: Set_def os_OpenFile_def File_Truncate_def File_Write_def File_Seek_def
      File_ReadFrom_def gob_Encode_items_def Buffer_Len_def contents_def Let_def
      PutUint32_nonempty length_PutUint32
      split: option.splits prod.splits node.splits)

lemma Get_eq:
  assumes "path_Join loc (Identifier c) = p"
  shows "Get g loc c now fs =
     (if Time_Before (Expiry c) now \<and> Expire c then (c, fst (os_Remove fs p), None)
      else case fs p of
             None \<Rightarrow> (c, fs(p \<mapsto> Regular []), None)
           | Some Unavailable \<Rightarrow> (c, fs, None)
           | Some (Regular d) \<Rightarrow>
               if d = [] then (c, fs, None)
               else (c, fs, decode_slice g (drop (4 + unat (Uint32 (header d))) d)))"
  using assms
  by (auto simp add: Get_def os_OpenFile_def Read_header seek_start seek_current
      gob_Decode_items_def contents_def Let_def header_def min_def
      split: option.splits prod.splits node.splits)

lemma header_read: "take (min 4 (length d)) d @ replicate (4 - min 4 (length d)) 0 = header d"
  by (simp add: header_def min_def)

lemma New_regular:
  assumes reg: "fs p = Some (Regular d)" and nonempty: "d \<noteq> []"
    and path: "path_Join loc ident = p"
  shows "New g loc ident expiry now fs =
     (if unat (Uint32 (header d)) \<noteq> 0 \<and> length d \<le> 4
      then (fs, Some \<lparr>Identifier = ident, Expire = (expiry \<noteq> 0), Expiry = Time_Add now expiry\<rparr>)
      else (fs, gob_Decode_Cache g (meta_block d)
                  \<lparr>Identifier = ident, Expire = (expiry \<noteq> 0), Expiry = Time_Add now expiry\<rparr>))"
proof -
  have opened: "os_OpenFile fs p = (fs, Inr \<lparr>fname = p, fpos = 0\<rparr>)"
    using reg by (simp add: os_OpenFile_def)
  have data: "contents fs \<lparr>fname = p, fpos = k\<rparr> = d" for k
    using reg by (simp add: contents_def)
  have hdr: "File_Read fs \<lparr>fname = p, fpos = 0\<rparr> (replicate 4 0) =
      (\<lparr>fname = p, fpos = min 4 (length d)\<rparr>, header d, min 4 (length d), None)"
    using nonempty by (simp add: Read_header data header_read)
  have seek: "File_Seek fs \<lparr>fname = p, fpos = min 4 (length d)\<rparr> 4 0 = Inr \<lparr>fname = p, fpos = 4\<rparr>"
    by (simp add: seek_start)
  have blk: "File_Read fs \<lparr>fname = p, fpos = 4\<rparr> (replicate (unat (Uint32 (header d))) 0) =
      (if unat (Uint32 (header d)) = 0 then (\<lparr>fname = p, fpos = 4\<rparr>, [], 0, None)
       else if length d \<le> 4
       then (\<lparr>fname = p, fpos = 4\<rparr>, replicate (unat (Uint32 (header d))) 0, 0, Some EOF)
       else (\<lparr>fname = p,
               fpos = 4 + min (min (unat (Uint32 (header d))) maxRW) (length d - 4)\<rparr>,
             meta_block d, min (min (unat (Uint32 (header d))) maxRW) (length d - 4), None))"
    by (simp add: Read_block data meta_block_def Let_def)
  have zero: "meta_block d = []" if "unat (Uint32 (header d)) = 0"
    using that by (simp add: meta_block_def)
  show ?thesis
    unfolding New_def Let_def
    by (simp add: path opened hdr seek blk zero split: option.splits)
qed

lemma New_eq:
  assumes "path_Join loc ident = p"
  shows "New g loc ident expiry now fs =
     (let c = \<lparr>Identifier = ident, Expire = (expiry \<noteq> 0), Expiry = Time_Add now expiry\<rparr> in
      case fs p of
        None \<Rightarrow> (fs(p \<mapsto> Regular []), Some c)
      | Some Unavailable \<Rightarrow> (fs, None)
      | Some (Regular d) \<Rightarrow>
          if d = [] then (fs, Some c)
          else
            if unat (Uint32 (header d)) \<noteq> 0 \<and> length d \<le> 4 then (fs, Some c)
            else (fs, gob_Decode_Cache g (meta_block d) c))"
proof (cases "fs p")
  case None
  then show ?thesis
    using assms by (simp add: New_def os_OpenFile_def Read_header contents_def)
next
  case (Some nd)
  show ?thesis
  proof (cases nd)
    case Unavailable
    with Some show ?thesis
      using assms by (simp add: New_def os_OpenFile_def)
  next
    case (Regular d)
    show ?thesis
    proof (cases "d = []")
      case True
      with Some Regular show ?thesis
        using assms by (simp add: New_def os_OpenFile_def Read_header contents_def)
    next
      case False
      with Some Regular New_regular [OF _ False assms, of fs g expiry now] show ?thesis
        by (simp add: Let_def)
    qed
  qed
qed

lemma path_tmp_k: "path_Join ''/tmp'' ''k'' = ''/tmp/k''"
  by (simp add: path_Join_def path_Clean_def)

subsection \<open>The handle is not changed\<close>

text \<open>
  Claim C9. Neither \<^verbatim>\<open>Set\<close> nor \<^verbatim>\<open>Get\<close> modifies the metadata of the handle: the
  \<^verbatim>\<open>Cache\<close> value after the call, with its \<^verbatim>\<open>Identifier\<close>, \<^verbatim>\<open>Expire\<close> and \<^verbatim>\<open>Expiry\<close>,
  is the one before the call, whether the call succeeds or fails.
\<close>

theorem Set_Get_keep_handle:
  "fst (Set g loc c items fs) = c \<and> fst (Get g loc c now fs) = c"
  by (simp add: Set_eq [OF refl] Get_eq [OF refl] split: option.splits prod.splits node.splits)

subsection \<open>\<^verbatim>\<open>Get\<close> reports every failure as absent\<close>

text \<open>
  Claim C5. \<^verbatim>\<open>Get\<close> never returns a distinguishable error. Its result is the \<^verbatim>\<open>nil\<close>
  pointer when the handle is expired, when the file is missing or cannot be opened,
  when the file is empty so that no header can be read, and when the items do not
  decode; and a result that is not \<^verbatim>\<open>nil\<close> means that every step succeeded, so any
  other failure is \<^verbatim>\<open>nil\<close> as well. (The two seeks go to non-negative offsets of a
  regular file and cannot fail.) A corrupt file, an empty cache and an expired cache all
  give the same result.
\<close>

theorem Get_failures_absent:
  "(Time_Before (Expiry c) now \<and> Expire c \<longrightarrow> snd (snd (Get g loc c now fs)) = None)
   \<and> (fs (path_Join loc (Identifier c)) = None \<longrightarrow> snd (snd (Get g loc c now fs)) = None)
   \<and> (fs (path_Join loc (Identifier c)) = Some Unavailable \<longrightarrow>
        snd (snd (Get g loc c now fs)) = None)
   \<and> (fs (path_Join loc (Identifier c)) = Some (Regular []) \<longrightarrow>
        snd (snd (Get g loc c now fs)) = None)
   \<and> (\<forall>d. fs (path_Join loc (Identifier c)) = Some (Regular d) \<and>
            decode_slice g (drop (4 + unat (Uint32 (header d))) d) = None \<longrightarrow>
        snd (snd (Get g loc c now fs)) = None)
   \<and> (\<forall>items. snd (snd (Get g loc c now fs)) = Some items \<longrightarrow>
        \<not> (Time_Before (Expiry c) now \<and> Expire c) \<and>
        (\<exists>d. fs (path_Join loc (Identifier c)) = Some (Regular d) \<and> d \<noteq> [] \<and>
             decode_slice g (drop (4 + unat (Uint32 (header d))) d) = Some items))"
  by (auto simp add: Get_eq [OF refl] split: option.splits node.splits if_splits)

text \<open>
  Claim C5, at concrete inputs with the concrete wire format: a file of garbage, an
  empty file and an expired handle all give \<^verbatim>\<open>nil\<close>.
\<close>

theorem Get_failures_absent_witness:
  "snd (snd (Get tlv_gob ''/tmp'' (handle_k False 0) 100
              (disk_k [9, 9, 9, 9, 9]))) = None
   \<and> snd (snd (Get tlv_gob ''/tmp'' (handle_k False 0) 100
              (disk_k []))) = None
   \<and> snd (snd (Get tlv_gob ''/tmp'' (handle_k True 0) 100
              (disk_k [9, 9, 9, 9, 9]))) = None"
proof -
  have dec: "decode_slice tlv_gob (drop (4 + unat (Uint32 (header [9, 9, 9, 9, 9]))) [9, 9, 9, 9, 9]) = None"
    by (simp add: tlv_gob_def get_slice_def header_def Uint32_def)
  show ?thesis
    using dec
      Get_failures_absent [where c = "handle_k False 0" and now = 100 and g = tlv_gob and loc = "''/tmp''"
        and fs = "disk_k [9, 9, 9, 9, 9]"]
      Get_failures_absent [where c = "handle_k False 0" and now = 100 and g = tlv_gob and loc = "''/tmp''"
        and fs = "disk_k []"]
      Get_failures_absent [where c = "handle_k True 0" and now = 100 and g = tlv_gob and loc = "''/tmp''"
        and fs = "disk_k [9, 9, 9, 9, 9]"]
    by (simp add: path_tmp_k Time_Before_def)
qed

subsection \<open>Expiry deletes the file, and nothing else does\<close>

text \<open>
  Claim C6. When \<^verbatim>\<open>Expire\<close> is set and \<^verbatim>\<open>Expiry\<close> is strictly before the time of the call,
  \<^verbatim>\<open>Get\<close> removes the backing file and returns \<^verbatim>\<open>nil\<close>, whatever the file holds: a
  regular file at the path is gone afterwards. When \<^verbatim>\<open>Expire\<close> is not set or \<^verbatim>\<open>Expiry\<close> has
  not passed, \<^verbatim>\<open>Get\<close> deletes no file: every path that named something names the same
  thing afterwards.
\<close>

theorem Get_expiry_deletes:
  "(Time_Before (Expiry c) now \<and> Expire c \<longrightarrow>
      Get g loc c now fs = (c, fst (os_Remove fs (path_Join loc (Identifier c))), None) \<and>
      (\<forall>d. fs (path_Join loc (Identifier c)) = Some (Regular d) \<longrightarrow>
           fst (snd (Get g loc c now fs)) (path_Join loc (Identifier c)) = None))
   \<and> (\<not> (Time_Before (Expiry c) now \<and> Expire c) \<longrightarrow>
        (\<forall>q. fs q \<noteq> None \<longrightarrow> fst (snd (Get g loc c now fs)) q = fs q))"
  by (auto simp add: Get_eq [OF refl] os_Remove_def split: option.splits node.splits)

text \<open>
  Claim C6, at concrete inputs: a handle that expires at 105 over a file with three saved
  items. At time 200 the file is removed and the result is \<^verbatim>\<open>nil\<close>; at time 105 the file
  stays.
\<close>

theorem Get_expiry_deletes_witness:
  "snd (snd (Get tlv_gob ''/tmp'' (handle_k True 105) 200 (disk_k file_123))) = None
   \<and> fst (snd (Get tlv_gob ''/tmp'' (handle_k True 105) 200 (disk_k file_123))) ''/tmp/k'' = None
   \<and> fst (snd (Get tlv_gob ''/tmp'' (handle_k True 105) 105 (disk_k file_123))) ''/tmp/k''
       = Some (Regular file_123)"
proof -
  have late: "Time_Before (Expiry (handle_k True 105)) 200 \<and> Expire (handle_k True 105)"
    by (simp add: Time_Before_def)
  have early: "\<not> (Time_Before (Expiry (handle_k True 105)) 105 \<and> Expire (handle_k True 105))"
    by (simp add: Time_Before_def)
  have there: "disk_k file_123 ''/tmp/k'' \<noteq> None"
    by simp
  from Get_expiry_deletes [where g = tlv_gob and loc = "''/tmp''" and fs = "disk_k file_123"
      and c = "handle_k True 105" and now = 200, THEN conjunct1, rule_format, OF late]
  have gone: "snd (snd (Get tlv_gob ''/tmp'' (handle_k True 105) 200 (disk_k file_123))) = None
   \<and> fst (snd (Get tlv_gob ''/tmp'' (handle_k True 105) 200 (disk_k file_123))) ''/tmp/k'' = None"
    by (simp add: path_tmp_k os_Remove_def)
  from Get_expiry_deletes [where g = tlv_gob and loc = "''/tmp''" and fs = "disk_k file_123"
      and c = "handle_k True 105" and now = 105, THEN conjunct2, rule_format, OF early there]
  have kept: "fst (snd (Get tlv_gob ''/tmp'' (handle_k True 105) 105 (disk_k file_123))) ''/tmp/k''
       = Some (Regular file_123)"
    by simp
  from gone kept show ?thesis by simp
qed

subsection \<open>The effect of \<^verbatim>\<open>Get\<close> on the file system\<close>

text \<open>
  Claim C7 says that the only side effect of \<^verbatim>\<open>Get\<close> is the deletion on expiry, and that
  a \<^verbatim>\<open>Get\<close> on an identifier without a file leaves the file system unchanged. \<^verbatim>\<open>Get\<close>
  opens the file with \<^verbatim>\<open>os.O_CREATE\<close>: on an empty file system, a \<^verbatim>\<open>Get\<close> through a handle
  that never expires returns \<^verbatim>\<open>nil\<close> and leaves an empty file \<^verbatim>\<open>/tmp/k\<close> behind.
\<close>

theorem Get_creates_missing_file:
  "fst (snd (Get tlv_gob ''/tmp'' (handle_k False 0) 100 Map.empty)) \<noteq> Map.empty
   \<and> fst (snd (Get tlv_gob ''/tmp'' (handle_k False 0) 100 Map.empty)) ''/tmp/k'' = Some (Regular [])
   \<and> snd (snd (Get tlv_gob ''/tmp'' (handle_k False 0) 100 Map.empty)) = None"
  by (simp add: Get_eq [OF refl] path_tmp_k)

text \<open>
  Claim C7, amended. The file system after \<^verbatim>\<open>Get\<close> is: the one before with the backing
  file removed, when expiry is detected; the one before with an empty backing file
  created, when the handle is not expired and the path names nothing; and the one before
  in every other case. A \<^verbatim>\<open>Get\<close> that returns items changes nothing.
\<close>

theorem Get_frame:
  "fst (snd (Get g loc c now fs)) =
     (if Time_Before (Expiry c) now \<and> Expire c
      then fst (os_Remove fs (path_Join loc (Identifier c)))
      else if fs (path_Join loc (Identifier c)) = None
      then fs(path_Join loc (Identifier c) \<mapsto> Regular [])
      else fs)
   \<and> (snd (snd (Get g loc c now fs)) \<noteq> None \<longrightarrow> fst (snd (Get g loc c now fs)) = fs)"
  by (auto simp add: Get_eq [OF refl] split: option.splits node.splits)

text \<open>
  Claim C7, amended, at a concrete input: a \<^verbatim>\<open>Get\<close> that returns the three saved items
  and leaves the file system as it was.
\<close>

theorem Get_frame_witness:
  "snd (snd (Get tlv_gob ''/tmp'' (handle_k True 105) 105 (disk_k file_123))) = Some [1, 2, 3]
   \<and> fst (snd (Get tlv_gob ''/tmp'' (handle_k True 105) 105 (disk_k file_123))) = disk_k file_123"
proof -
  have res: "snd (snd (Get tlv_gob ''/tmp'' (handle_k True 105) 105 (disk_k file_123)))
      = Some [1, 2, 3]"
    by (simp add: Get_eq [OF refl] path_tmp_k Time_Before_def header_def Uint32_def tlv_gob_def
        get_slice_def)
  then have "snd (snd (Get tlv_gob ''/tmp'' (handle_k True 105) 105 (disk_k file_123))) \<noteq> None"
    by simp
  from Get_frame [where g = tlv_gob and loc = "''/tmp''" and fs = "disk_k file_123"
      and c = "handle_k True 105" and now = 105, THEN conjunct2, rule_format, OF this] res
  show ?thesis by simp
qed

subsection \<open>A negative duration\<close>

text \<open>
  Claim C10. \<^verbatim>\<open>New\<close> with a strictly negative duration, on an identifier whose file is
  missing or empty, returns a handle with \<^verbatim>\<open>Expire\<close> set and an \<^verbatim>\<open>Expiry\<close> before the time
  of the call, and leaves an empty file. Every \<^verbatim>\<open>Get\<close> through this handle at that time
  or later, whatever the file system holds by then, removes the backing file and returns
  \<^verbatim>\<open>nil\<close>; right after \<^verbatim>\<open>New\<close> the file is gone.
\<close>

theorem New_negative_expiry:
  assumes neg: "sint d < 0"
    and fresh: "fs (path_Join loc ident) = None \<or> fs (path_Join loc ident) = Some (Regular [])"
    and later: "t0 \<le> t1"
  shows "\<exists>c. snd (New g loc ident d t0 fs) = Some c \<and> Expire c \<and> Time_Before (Expiry c) t0
           \<and> fst (New g loc ident d t0 fs) (path_Join loc ident) = Some (Regular [])
           \<and> (\<forall>fs'. Get g loc c t1 fs' = (c, fst (os_Remove fs' (path_Join loc ident)), None))
           \<and> fst (snd (Get g loc c t1 (fst (New g loc ident d t0 fs)))) (path_Join loc ident) = None"
proof -
  let ?c = "\<lparr>Identifier = ident, Expire = (d \<noteq> 0), Expiry = Time_Add t0 d\<rparr>"
  from neg have nz: "d \<noteq> 0" by auto
  from fresh have new: "snd (New g loc ident d t0 fs) = Some ?c"
    and made: "fst (New g loc ident d t0 fs) (path_Join loc ident) = Some (Regular [])"
    by (auto simp add: New_eq [OF refl] Let_def)
  from neg have past: "Time_Before (Expiry ?c) t0"
    by (simp add: Time_Before_def Time_Add_def)
  with later have due: "Time_Before (Expiry ?c) t1 \<and> Expire ?c"
    using nz by (simp add: Time_Before_def)
  then have get: "Get g loc ?c t1 fs' = (?c, fst (os_Remove fs' (path_Join loc ident)), None)" for fs'
    by (simp add: Get_eq [OF refl])
  from get made have "fst (snd (Get g loc ?c t1 (fst (New g loc ident d t0 fs)))) (path_Join loc ident) = None"
    by (simp add: os_Remove_def)
  with new nz past made get show ?thesis by auto
qed

text \<open>
  Claim C10, at a concrete input: a duration of -5 at time 100 gives a handle that
  expired at 95, and a \<^verbatim>\<open>Get\<close> over a file with three saved items removes the file and
  returns \<^verbatim>\<open>nil\<close>.
\<close>

theorem New_negative_expiry_witness:
  "snd (New tlv_gob ''/tmp'' ''k'' (- 5) 100 Map.empty) = Some (handle_k True 95)
   \<and> fst (New tlv_gob ''/tmp'' ''k'' (- 5) 100 Map.empty) ''/tmp/k'' = Some (Regular [])
   \<and> snd (snd (Get tlv_gob ''/tmp'' (handle_k True 95) 100 (disk_k file_123))) = None
   \<and> fst (snd (Get tlv_gob ''/tmp'' (handle_k True 95) 100 (disk_k file_123))) ''/tmp/k'' = None"
proof -
  have neg: "sint (- 5 :: Duration) < 0" by simp
  have fresh: "Map.empty (path_Join ''/tmp'' ''k'') = None \<or>
      Map.empty (path_Join ''/tmp'' ''k'') = Some (Regular [])"
    by simp
  have later: "(100 :: Time) \<le> 100" by simp
  from New_negative_expiry [OF neg fresh later, where g = tlv_gob]
  obtain c where c: "snd (New tlv_gob ''/tmp'' ''k'' (- 5) 100 Map.empty) = Some c"
    and made: "fst (New tlv_gob ''/tmp'' ''k'' (- 5) 100 Map.empty) (path_Join ''/tmp'' ''k'')
        = Some (Regular [])"
    and get: "\<And>fs'. Get tlv_gob ''/tmp'' c 100 fs'
        = (c, fst (os_Remove fs' (path_Join ''/tmp'' ''k'')), None)"
    by blast
  have "snd (New tlv_gob ''/tmp'' ''k'' (- 5) 100 Map.empty) = Some (handle_k True 95)"
    by (simp add: New_eq [OF path_tmp_k] Time_Add_def)
  with c have "c = handle_k True 95" by simp
  with c made get [of "disk_k file_123"] show ?thesis
    by (simp add: path_tmp_k os_Remove_def)
qed

subsection \<open>The outcomes of \<^verbatim>\<open>New\<close>\<close>

text \<open>
  Claim C8 says that the failures of \<^verbatim>\<open>New\<close> are distinguishable. \<^verbatim>\<open>New\<close> returns the
  \<^verbatim>\<open>nil\<close> pointer and nothing else for both: for a path that cannot be opened, and for a
  file whose header announces one byte of metadata that does not decode.
\<close>

theorem New_failures_same:
  "snd (New tlv_gob ''/tmp'' ''k'' 0 100 [''/tmp/k'' \<mapsto> Unavailable]) = None
   \<and> snd (New tlv_gob ''/tmp'' ''k'' 0 100 (disk_k [1, 0, 0, 0, 9])) = None"
  by (simp add: New_eq [OF path_tmp_k] header_def meta_block_def maxRW_def Let_def Uint32_def
      gob_Decode_Cache_def tlv_gob_def get_fields_def get_Identifier_def get_Expire_def
      get_Expiry_def)

text \<open>
  Claim C8, amended. \<^verbatim>\<open>New\<close> returns \<^verbatim>\<open>nil\<close> when the file cannot be opened or created,
  and when a header is present and the metadata block read after it fails to
  deserialize; these are the only cases, and the result is the same \<^verbatim>\<open>nil\<close> in both.
  When the file is missing or empty, \<^verbatim>\<open>New\<close> succeeds with the freshly built default
  handle; so it does when the header announces a block that is not empty and no byte
  follows the header.
\<close>

theorem New_outcomes:
  "(fs (path_Join loc ident) = Some Unavailable \<longrightarrow> New g loc ident d now fs = (fs, None))
   \<and> (\<forall>data. fs (path_Join loc ident) = Some (Regular data) \<and> data \<noteq> [] \<and>
          \<not> (unat (Uint32 (header data)) \<noteq> 0 \<and> length data \<le> 4) \<and>
          gob_Decode_Cache g (meta_block data) (default_handle ident d now) = None \<longrightarrow>
        New g loc ident d now fs = (fs, None))
   \<and> (snd (New g loc ident d now fs) = None \<longrightarrow>
        fs (path_Join loc ident) = Some Unavailable \<or>
        (\<exists>data. fs (path_Join loc ident) = Some (Regular data) \<and> data \<noteq> [] \<and>
           gob_Decode_Cache g (meta_block data) (default_handle ident d now) = None))
   \<and> (fs (path_Join loc ident) = None \<longrightarrow>
        New g loc ident d now fs =
          (fs(path_Join loc ident \<mapsto> Regular []), Some (default_handle ident d now)))
   \<and> (fs (path_Join loc ident) = Some (Regular []) \<longrightarrow>
        New g loc ident d now fs = (fs, Some (default_handle ident d now)))
   \<and> (\<forall>data. fs (path_Join loc ident) = Some (Regular data) \<and>
          unat (Uint32 (header data)) \<noteq> 0 \<and> length data \<le> 4 \<longrightarrow>
        New g loc ident d now fs = (fs, Some (default_handle ident d now)))"
  by (auto simp add: New_eq [OF refl] default_handle_def Let_def
      split: option.splits node.splits if_splits)

text \<open>
  Claim C8, amended, at concrete inputs: an unavailable path, an undecodable block, a
  missing file, an empty file and a header without a block.
\<close>

theorem New_outcomes_witness:
  "New tlv_gob ''/tmp'' ''k'' 0 100 [''/tmp/k'' \<mapsto> Unavailable] = ([''/tmp/k'' \<mapsto> Unavailable], None)
   \<and> New tlv_gob ''/tmp'' ''k'' 0 100 (disk_k [1, 0, 0, 0, 9]) = (disk_k [1, 0, 0, 0, 9], None)
   \<and> New tlv_gob ''/tmp'' ''k'' 0 100 Map.empty = (disk_k [], Some (handle_k False 100))
   \<and> New tlv_gob ''/tmp'' ''k'' 0 100 (disk_k []) = (disk_k [], Some (handle_k False 100))
   \<and> New tlv_gob ''/tmp'' ''k'' 0 100 (disk_k [1, 0, 0, 0]) = (disk_k [1, 0, 0, 0], Some (handle_k False 100))"
proof -
  have bad: "gob_Decode_Cache tlv_gob (meta_block [1, 0, 0, 0, 9]) (default_handle ''k'' 0 100) = None"
    by (simp add: header_def meta_block_def maxRW_def Let_def Uint32_def gob_Decode_Cache_def
        tlv_gob_def get_fields_def get_Identifier_def get_Expire_def get_Expiry_def)
  have one: "unat (Uint32 (header [1, 0, 0, 0, 9])) = 1" "unat (Uint32 (header [1, 0, 0, 0])) = 1"
    by (simp_all add: header_def Uint32_def)
  note T = New_outcomes [where g = tlv_gob and loc = "''/tmp''" and ident = "''k''" and d = 0
      and now = 100]
  have a: "New tlv_gob ''/tmp'' ''k'' 0 100 [''/tmp/k'' \<mapsto> Unavailable]
      = ([''/tmp/k'' \<mapsto> Unavailable], None)"
    using T [where fs = "[''/tmp/k'' \<mapsto> Unavailable]"] by (simp add: path_tmp_k)
  have b: "New tlv_gob ''/tmp'' ''k'' 0 100 (disk_k [1, 0, 0, 0, 9]) = (disk_k [1, 0, 0, 0, 9], None)"
    using T [where fs = "disk_k [1, 0, 0, 0, 9]"] bad one by (simp add: path_tmp_k)
  have c: "New tlv_gob ''/tmp'' ''k'' 0 100 Map.empty = (disk_k [], Some (handle_k False 100))"
    using T [where fs = "Map.empty"] by (simp add: path_tmp_k default_handle_def Time_Add_def)
  have d: "New tlv_gob ''/tmp'' ''k'' 0 100 (disk_k []) = (disk_k [], Some (handle_k False 100))"
    using T [where fs = "disk_k []"] by (simp add: path_tmp_k default_handle_def Time_Add_def)
  have e: "New tlv_gob ''/tmp'' ''k'' 0 100 (disk_k [1, 0, 0, 0])
      = (disk_k [1, 0, 0, 0], Some (handle_k False 100))"
    using T [where fs = "disk_k [1, 0, 0, 0]"] one
    by (simp add: path_tmp_k default_handle_def Time_Add_def)
  from a b c d e show ?thesis by simp
qed

subsection \<open>The file that \<^verbatim>\<open>Set\<close> leaves, and reading it back\<close>

lemma Set_ok_file:
  assumes "snd (snd (Set g loc c items fs)) = None"
  shows "\<exists>mb pb. gob_Encode_Cache g c = Some mb \<and> encode_slice g items = (pb, True) \<and>
           fs (path_Join loc (Identifier c)) \<noteq> Some Unavailable \<and>
           fst (snd (Set g loc c items fs)) =
             fs(path_Join loc (Identifier c) \<mapsto> Regular (PutUint32 (of_nat (length mb)) @ mb @ pb))"
  using assms
  by (auto simp add: Set_eq [OF refl] split: option.splits prod.splits if_splits)

lemma maxRW_less: "n \<le> maxRW \<Longrightarrow> n < 2 ^ 32"
  by (simp add: maxRW_def)

lemma meta_block_saved:
  assumes "n = length mb" and "n \<le> maxRW"
  shows "meta_block (PutUint32 (of_nat n) @ mb @ pb) = mb"
proof -
  from assms(2) have "n < 2 ^ 32" by (rule maxRW_less)
  then have "unat (Uint32 (header (PutUint32 (of_nat n) @ mb @ pb))) = n"
    by (rule unat_header_length)
  moreover from assms have "min (min n maxRW) (length mb + length pb) = n"
    by simp
  ultimately show ?thesis
    using assms(1) by (simp add: meta_block_def length_PutUint32)
qed

lemma Get_saved:
  assumes "fs p = Some (Regular (PutUint32 (of_nat (length mb)) @ mb @ pb))"
    and "length mb < 2 ^ 32"
    and "\<not> (Time_Before (Expiry c) now \<and> Expire c)"
    and "path_Join loc (Identifier c) = p"
  shows "Get g loc c now fs = (c, fs, decode_slice g pb)"
  using assms
  by (auto simp add: Get_eq [OF refl] unat_header_length length_PutUint32 PutUint32_nonempty)

lemma New_saved:
  assumes "fs p = Some (Regular (PutUint32 (of_nat (length mb)) @ mb @ pb))"
    and "length mb \<le> maxRW"
    and "path_Join loc ident = p"
  shows "New g loc ident d now fs = (fs, gob_Decode_Cache g mb (default_handle ident d now))"
proof -
  let ?d = "PutUint32 (of_nat (length mb)) @ mb @ pb"
  have L: "unat (Uint32 (header ?d)) = length mb"
    by (rule unat_header_length [OF maxRW_less [OF assms(2)]])
  have block: "meta_block ?d = mb"
    by (rule meta_block_saved [OF refl assms(2)])
  have nonempty: "?d \<noteq> []"
    by (simp add: PutUint32_nonempty)
  have "length ?d = 4 + length mb + length pb"
    by (simp add: length_PutUint32)
  with L have more: "\<not> (unat (Uint32 (header ?d)) \<noteq> 0 \<and> length ?d \<le> 4)"
    by simp
  note eq = New_regular [where fs = fs and p = p and g = g and expiry = d and now = now,
      OF assms(1) nonempty assms(3)]
  show ?thesis
    unfolding eq if_not_P [OF more] block default_handle_def by (rule refl)
qed

lemma Get_after_Set:
  assumes sound: "gob_sound g"
    and ok: "snd (snd (Set g loc c items fs)) = None"
    and fits: "header_fits g c"
    and live: "\<not> (Time_Before (Expiry c) now \<and> Expire c)"
  shows "Get g loc c now (fst (snd (Set g loc c items fs))) =
           (c, fst (snd (Set g loc c items fs)), Some items)"
proof -
  from Set_ok_file [OF ok] obtain mb pb where
    mb: "gob_Encode_Cache g c = Some mb" and pb: "encode_slice g items = (pb, True)"
    and fs': "fst (snd (Set g loc c items fs)) =
      fs(path_Join loc (Identifier c) \<mapsto> Regular (PutUint32 (of_nat (length mb)) @ mb @ pb))"
    by blast
  from fits mb have len: "length mb < 2 ^ 32" by (simp add: header_fits_def)
  from sound pb have dec: "decode_slice g pb = Some items" by (simp add: gob_sound_def)
  have "fst (snd (Set g loc c items fs)) (path_Join loc (Identifier c)) =
      Some (Regular (PutUint32 (of_nat (length mb)) @ mb @ pb))"
    by (simp add: fs')
  from Get_saved [where g = g and fs = "fst (snd (Set g loc c items fs))"
      and p = "path_Join loc (Identifier c)", OF this len live refl] dec
  show ?thesis by simp
qed


text \<open>
  A second \<^verbatim>\<open>Set\<close> through the same handle does what it does on the file system before
  the first one: nothing of the first call is left.
\<close>

lemma Set_after_Set: "Set g loc c B (fst (snd (Set g loc c A fs))) = Set g loc c B fs"
  by (auto simp add: Set_eq [OF refl] split: option.splits prod.splits)

lemma Get_regular:
  assumes "fs p = Some (Regular d)" and "d \<noteq> []"
    and "\<not> (Time_Before (Expiry c) now \<and> Expire c)"
    and "path_Join loc (Identifier c) = p"
  shows "snd (snd (Get g loc c now fs)) = decode_slice g (drop (4 + unat (Uint32 (header d))) d)"
  using assms by (auto simp add: Get_eq [OF refl])

text \<open>
  What \<^verbatim>\<open>New\<close> returns on a file that \<^verbatim>\<open>Set\<close> wrote, when the metadata block is read
  whole: each persisted field unless it is a zero value. A persisted \<^verbatim>\<open>Expire\<close> that is
  false, like an empty \<^verbatim>\<open>Identifier\<close> and a zero \<^verbatim>\<open>Expiry\<close>, is not transmitted and does not
  overwrite the default, so \<^verbatim>\<open>Expire\<close> is set when the persisted one is set or the new
  duration is not zero.
\<close>

lemma New_after_Set:
  assumes sound: "gob_sound g"
    and ok: "snd (snd (Set g loc c items fs)) = None"
    and fits: "read_fits g c"
    and same: "path_Join loc ident = path_Join loc (Identifier c)"
  shows "New g loc ident d now (fst (snd (Set g loc c items fs))) =
           (fst (snd (Set g loc c items fs)),
            Some \<lparr>Identifier = (if Identifier c = [] then ident else Identifier c),
                  Expire = (Expire c \<or> d \<noteq> 0),
                  Expiry = (if Expiry c = zero_Time then Time_Add now d else Expiry c)\<rparr>)"
proof -
  from Set_ok_file [OF ok] obtain mb pb where
    mb: "gob_Encode_Cache g c = Some mb"
    and fs': "fst (snd (Set g loc c items fs)) =
      fs(path_Join loc (Identifier c) \<mapsto> Regular (PutUint32 (of_nat (length mb)) @ mb @ pb))"
    by blast
  from fits mb have len: "length mb \<le> maxRW" by (simp add: read_fits_def)
  from sound mb have dec: "decode_struct g mb = Some (struct_fields c)"
    by (simp add: gob_sound_def gob_Encode_Cache_def)
  have "fst (snd (Set g loc c items fs)) (path_Join loc (Identifier c)) =
      Some (Regular (PutUint32 (of_nat (length mb)) @ mb @ pb))"
    by (simp add: fs')
  from New_saved [where g = g and fs = "fst (snd (Set g loc c items fs))"
      and p = "path_Join loc (Identifier c)", OF this len same] dec
  show ?thesis
    by (simp add: gob_Decode_Cache_def assign_fields_def struct_fields_def default_handle_def)
qed

lemma New_fresh:
  assumes "fs (path_Join loc ident) = None \<or> fs (path_Join loc ident) = Some (Regular [])"
  shows "New g loc ident d now fs =
           (fs(path_Join loc ident \<mapsto> Regular []), Some (default_handle ident d now))"
  using assms by (auto simp add: New_eq [OF refl] default_handle_def Let_def fun_upd_idem)

text \<open>The concrete wire format on the concrete inputs.\<close>

lemma enc_k_105: "gob_Encode_Cache tlv_gob (handle_k True 105) = Some [1, 1, 107, 2, 1, 3, 210, 1, 0]"
  by (simp add: gob_Encode_Cache_def tlv_gob_def struct_fields_def zero_Time_def put_fields_def
      put_string_def put_varint_def put_uvarint.simps)

lemma enc_k_100: "gob_Encode_Cache tlv_gob (handle_k False 100) = Some [1, 1, 107, 3, 200, 1, 0]"
  by (simp add: gob_Encode_Cache_def tlv_gob_def struct_fields_def zero_Time_def put_fields_def
      put_string_def put_varint_def put_uvarint.simps)

lemma enc_123: "encode_slice tlv_gob [1, 2, 3] = ([3, 1, 2, 3], True)"
  by (simp add: tlv_gob_def put_slice_def put_uvarint.simps)

lemma enc_78: "encode_slice tlv_gob [7, 8] = ([2, 7, 8], True)"
  by (simp add: tlv_gob_def put_slice_def put_uvarint.simps)

lemma hdr_9: "PutUint32 9 = [9, 0, 0, 0]"
  by (simp add: PutUint32_def)

lemma hdr_7: "PutUint32 7 = [7, 0, 0, 0]"
  by (simp add: PutUint32_def)

lemma Set_k_105: "Set tlv_gob ''/tmp'' (handle_k True 105) [1, 2, 3] (disk_k d) =
    (handle_k True 105, disk_k file_123, None)"
  by (simp add: Set_eq [OF refl] path_tmp_k enc_k_105 enc_123 hdr_9)

lemma Set_k_100: "Set tlv_gob ''/tmp'' (handle_k False 100) [1, 2, 3] (disk_k d) =
    (handle_k False 100, disk_k file_123_forever, None)"
  by (simp add: Set_eq [OF refl] path_tmp_k enc_k_100 enc_123 hdr_7)

lemma Set_k_105_78: "Set tlv_gob ''/tmp'' (handle_k True 105) [7, 8] (disk_k d) =
    (handle_k True 105, disk_k [9, 0, 0, 0, 1, 1, 107, 2, 1, 3, 210, 1, 0, 2, 7, 8], None)"
  by (simp add: Set_eq [OF refl] path_tmp_k enc_k_105 enc_78 hdr_9)

lemma fits_k_105: "header_fits tlv_gob (handle_k True 105)"
  by (simp add: header_fits_def enc_k_105)

lemma fits_k_100: "header_fits tlv_gob (handle_k False 100)"
  by (simp add: header_fits_def enc_k_100)

lemma reads_k_105: "read_fits tlv_gob (handle_k True 105)"
  by (simp add: read_fits_def enc_k_105 maxRW_def)

lemma reads_k_100: "read_fits tlv_gob (handle_k False 100)"
  by (simp add: read_fits_def enc_k_100 maxRW_def)

text \<open>The long identifier: its path, its length and its metadata block.\<close>

lemma split_slash_slashes: "split_slash (replicate n CHR ''/'' @ r) = replicate n [] @ split_slash r"
  by (induction n) simp_all

lemma clean_elems_empties: "clean_elems rooted out (replicate n [] @ es) = clean_elems rooted out es"
  by (induction n) simp_all

lemma path_Join_slashes: "path_Join ''/tmp'' (replicate n CHR ''/'' @ ''k'') = ''/tmp/k''"
  by (simp add: path_Join_def path_Clean_def split_slash_slashes clean_elems_empties)

lemma path_long_id: "path_Join ''/tmp'' long_id = ''/tmp/k''"
  unfolding long_id_def by (rule path_Join_slashes)

lemma length_long_id: "length long_id = 2 ^ 32"
  by (simp add: long_id_def)

lemma long_id_nonempty: "long_id \<noteq> []"
  by (simp add: long_id_def)

lemma enc_long:
  "gob_Encode_Cache tlv_gob \<lparr>Identifier = long_id, Expire = False, Expiry = 0\<rparr>
     = Some (1 # [128, 128, 128, 128, 16] @ map (\<lambda>c. of_nat (of_char c)) long_id @ [3, 0, 0])"
  by (simp add: gob_Encode_Cache_def tlv_gob_def struct_fields_def zero_Time_def put_fields_def
      put_string_def put_varint_def put_uvarint.simps long_id_nonempty length_long_id)

lemma get_slice_slashes:
  assumes "48 \<le> M"
  shows "get_slice (replicate M 47 @ r) = Some (replicate 47 47)"
proof -
  from assms obtain M' where M: "M = Suc M'" and big: "47 \<le> M'"
    by (cases M) simp_all
  have "get_uvarint (47 # replicate M' 47 @ r) = Some (47, replicate M' 47 @ r)"
    by simp
  moreover from big have "take 47 (replicate M' 47 @ r) = replicate 47 (47 :: byte)"
    by (simp add: min_def)
  ultimately show ?thesis
    using big by (simp add: get_slice_def M)
qed

lemma drop_long_file:
  assumes "3 \<le> N"
  shows "drop 13 ([9, 0, 0, 0] @ (1 # [128, 128, 128, 128, 16]
            @ map (\<lambda>c. of_nat (of_char c)) (replicate N CHR ''/'' @ ''k'') @ [3, 0, 0]) @ pb)
         = replicate (N - 3) (47 :: byte) @ (107 # [3, 0, 0] @ pb)"
proof -
  from assms obtain K where N: "N = 3 + K"
    using le_Suc_ex by blast
  show ?thesis
    unfolding N by (simp add: replicate_add)
qed

text \<open>
  With the long identifier, on a handle that never expires, \<^verbatim>\<open>Set\<close> succeeds and \<^verbatim>\<open>Get\<close>
  looks for the payload at offset 13, inside the metadata block: it does not return the
  items that were saved.
\<close>

lemma long_identifier_load_misses:
  "snd (snd (Get tlv_gob ''/tmp'' \<lparr>Identifier = long_id, Expire = False, Expiry = 0\<rparr> 0
      (fst (snd (Set tlv_gob ''/tmp'' \<lparr>Identifier = long_id, Expire = False, Expiry = 0\<rparr>
         [1, 2, 3] Map.empty))))) = Some (replicate 47 47)"
proof -
  let ?c = "\<lparr>Identifier = long_id, Expire = False, Expiry = 0\<rparr>"
  let ?d = "[9, 0, 0, 0] @ (1 # [128, 128, 128, 128, 16]
            @ map (\<lambda>c. of_nat (of_char c)) long_id @ [3, 0, 0]) @ [3, 1, 2, 3 :: byte]"
  let ?fs = "fst (snd (Set tlv_gob ''/tmp'' ?c [1, 2, 3] Map.empty))"
  have wrap: "(4294967305 :: uint32) = 9" by simp
  have nine: "unat (Uint32 (header ([9, 0, 0, 0] @ bs))) = 9" for bs
    by (simp add: header_def Uint32_def)
  have off: "4 + unat (Uint32 (header ?d)) = 13"
    unfolding nine by simp
  have sizes: "(3 :: nat) \<le> 2 ^ 32 - 1" "(48 :: nat) \<le> 2 ^ 32 - 1 - 3"
    by simp_all
  have payload: "decode_slice tlv_gob (drop 13 ?d) = Some (replicate 47 47)"
    unfolding long_id_def drop_long_file [OF sizes(1)]
    by (simp only: tlv_gob_def gob.simps get_slice_slashes [OF sizes(2)])
  have saved: "fst (snd (Set tlv_gob ''/tmp'' ?c [1, 2, 3] Map.empty)) ''/tmp/k''
      = Some (Regular ?d)"
    by (simp add: Set_eq [OF refl] path_long_id enc_long enc_123 length_long_id wrap hdr_9)
  have nonempty: "?d \<noteq> []" by simp
  have live: "\<not> (Time_Before (Expiry ?c) 0 \<and> Expire ?c)" by simp
  have path: "path_Join ''/tmp'' (Identifier ?c) = ''/tmp/k''"
    by (simp add: path_long_id)
  show ?thesis
    unfolding Get_regular [where g = tlv_gob and fs = ?fs and p = "''/tmp/k''" and d = ?d
        and c = ?c and now = 0 and loc = "''/tmp''", OF saved nonempty live path] off payload
    by (rule refl)
qed

subsection \<open>The layout of the file\<close>




subsection \<open>Round trip\<close>

text \<open>
  Claim C1 says that \<^verbatim>\<open>New(id, d)\<close>, \<^verbatim>\<open>Set(items)\<close>, \<^verbatim>\<open>Get()\<close> returns the items for every
  identifier when \<^verbatim>\<open>d\<close> is zero. A file left by an earlier run decides otherwise: a first
  run opens \<^verbatim>\<open>k\<close> at time 100 with a duration of 5 and saves; a second run at time 200
  opens \<^verbatim>\<open>k\<close> with duration zero and gets the persisted expiry 105 in its handle; its
  \<^verbatim>\<open>Set\<close> succeeds, and its \<^verbatim>\<open>Get\<close> returns \<^verbatim>\<open>nil\<close>.
\<close>

theorem stale_metadata_blocks_roundtrip:
  "New tlv_gob ''/tmp'' ''k'' 5 100 Map.empty = (disk_k [], Some (handle_k True 105))
   \<and> Set tlv_gob ''/tmp'' (handle_k True 105) [1, 2, 3] (disk_k [])
       = (handle_k True 105, disk_k file_123, None)
   \<and> New tlv_gob ''/tmp'' ''k'' 0 200 (disk_k file_123) = (disk_k file_123, Some (handle_k True 105))
   \<and> snd (snd (Set tlv_gob ''/tmp'' (handle_k True 105) [7, 8] (disk_k file_123))) = None
   \<and> snd (snd (Get tlv_gob ''/tmp'' (handle_k True 105) 200
              (fst (snd (Set tlv_gob ''/tmp'' (handle_k True 105) [7, 8] (disk_k file_123))))))
       = None"
proof -
  have a: "New tlv_gob ''/tmp'' ''k'' 5 100 Map.empty = (disk_k [], Some (handle_k True 105))"
    by (simp add: New_fresh path_tmp_k default_handle_def Time_Add_def)
  have fits: "read_fits (tlv_gob :: byte gob) (handle_k True 105)" by (rule reads_k_105)
  have ok: "snd (snd (Set tlv_gob ''/tmp'' (handle_k True 105) [1, 2, 3] (disk_k []))) = None"
    by (simp add: Set_k_105)
  have b: "New tlv_gob ''/tmp'' ''k'' 0 200 (disk_k file_123) = (disk_k file_123, Some (handle_k True 105))"
    using New_after_Set [OF tlv_gob_sound ok fits, where ident = "''k''" and d = 0 and now = 200]
    by (simp add: Set_k_105 zero_Time_def)
  have c: "snd (snd (Get tlv_gob ''/tmp'' (handle_k True 105) 200
              (fst (snd (Set tlv_gob ''/tmp'' (handle_k True 105) [7, 8] (disk_k file_123))))))
       = None"
    by (simp add: Get_eq [OF refl] Time_Before_def)
  from a b c show ?thesis by (simp add: Set_k_105 Set_k_105_78)
qed

text \<open>
  Claim C1, amended. When \<^verbatim>\<open>New(id, d)\<close> returns a handle and \<^verbatim>\<open>Set(items)\<close> through it
  returns no error, \<^verbatim>\<open>Get()\<close> returns the items and leaves the file system alone, provided
  the handle is not expired at the time of the \<^verbatim>\<open>Get\<close>: \<^verbatim>\<open>Expire\<close> is not set or \<^verbatim>\<open>Expiry\<close>
  is not before that time. For an identifier whose file is missing or empty at \<^verbatim>\<open>New\<close>,
  the handle is the default one, with \<^verbatim>\<open>Expire\<close> set when \<^verbatim>\<open>d\<close> is not zero and \<^verbatim>\<open>Expiry\<close> at
  the time of \<^verbatim>\<open>New\<close> plus \<^verbatim>\<open>d\<close>. The wire format is assumed to decode what it encoded,
  and the metadata block to be shorter than \<open>2 ^ 32\<close> bytes.
\<close>

theorem Open_Save_Load:
  assumes sound: "gob_sound g"
    and opened: "New g loc ident d t0 fs = (fs1, Some c)"
    and saved: "Set g loc c items fs1 = (c', fs2, None)"
    and fits: "header_fits g c"
    and live: "\<not> (Time_Before (Expiry c) t1 \<and> Expire c)"
  shows "Get g loc c' t1 fs2 = (c', fs2, Some items)
         \<and> (fs (path_Join loc ident) = None \<or> fs (path_Join loc ident) = Some (Regular []) \<longrightarrow>
              c = default_handle ident d t0)"
proof -
  from saved have ok: "snd (snd (Set g loc c items fs1)) = None"
    and c': "c' = fst (Set g loc c items fs1)"
    and fs2: "fs2 = fst (snd (Set g loc c items fs1))"
    by simp_all
  from c' have "c' = c"
    by (simp add: Set_eq [OF refl] split: option.splits prod.splits)
  with Get_after_Set [OF sound ok fits live] fs2
  have "Get g loc c' t1 fs2 = (c', fs2, Some items)" by simp
  moreover have "c = default_handle ident d t0"
    if "fs (path_Join loc ident) = None \<or> fs (path_Join loc ident) = Some (Regular [])"
    using New_fresh [where g = g and fs = fs and loc = loc and ident = ident and d = d
        and now = t0, OF that] opened
    by simp
  ultimately show ?thesis by blast
qed

text \<open>
  Claim C1, amended, at a concrete input: a fresh identifier, duration zero, three items,
  read back at time 500.
\<close>

theorem Open_Save_Load_witness:
  "New tlv_gob ''/tmp'' ''k'' 0 100 Map.empty = (disk_k [], Some (handle_k False 100))
   \<and> Set tlv_gob ''/tmp'' (handle_k False 100) [1, 2, 3] (disk_k [])
       = (handle_k False 100, disk_k file_123_forever, None)
   \<and> Get tlv_gob ''/tmp'' (handle_k False 100) 500 (disk_k file_123_forever)
       = (handle_k False 100, disk_k file_123_forever, Some [1, 2, 3])"
proof -
  have opened: "New tlv_gob ''/tmp'' ''k'' 0 100 Map.empty = (disk_k [], Some (handle_k False 100))"
    by (simp add: New_fresh path_tmp_k default_handle_def Time_Add_def)
  have saved: "Set tlv_gob ''/tmp'' (handle_k False 100) [1, 2, 3] (disk_k [])
       = (handle_k False 100, disk_k file_123_forever, None)"
    by (rule Set_k_100)
  have live: "\<not> (Time_Before (Expiry (handle_k False 100)) 500 \<and> Expire (handle_k False 100))"
    by simp
  from Open_Save_Load [OF tlv_gob_sound opened saved fits_k_100 live, THEN conjunct1] opened saved
  show ?thesis by simp
qed

subsection \<open>Overwrite, not merge\<close>

text \<open>
  Claim C3 says that \<^verbatim>\<open>Set(A)\<close>, \<^verbatim>\<open>Set(B)\<close>, \<^verbatim>\<open>Get()\<close> returns \<^verbatim>\<open>B\<close> on every handle. On a
  handle opened at time 100 with a duration of 5, both calls of \<^verbatim>\<open>Set\<close> succeed and a
  \<^verbatim>\<open>Get\<close> at time 200 returns \<^verbatim>\<open>nil\<close>.
\<close>

theorem expired_handle_loads_nothing:
  "New tlv_gob ''/tmp'' ''k'' 5 100 Map.empty = (disk_k [], Some (handle_k True 105))
   \<and> snd (snd (Set tlv_gob ''/tmp'' (handle_k True 105) [1, 2, 3] (disk_k []))) = None
   \<and> snd (snd (Set tlv_gob ''/tmp'' (handle_k True 105) [7, 8]
         (fst (snd (Set tlv_gob ''/tmp'' (handle_k True 105) [1, 2, 3] (disk_k [])))))) = None
   \<and> snd (snd (Get tlv_gob ''/tmp'' (handle_k True 105) 200
         (fst (snd (Set tlv_gob ''/tmp'' (handle_k True 105) [7, 8]
            (fst (snd (Set tlv_gob ''/tmp'' (handle_k True 105) [1, 2, 3] (disk_k []))))))))) = None"
  by (simp add: New_fresh path_tmp_k default_handle_def Time_Add_def Set_k_105 Set_k_105_78
      Get_eq [OF refl] Time_Before_def)

text \<open>
  Claim C3, amended. \<^verbatim>\<open>Set(A)\<close> followed by \<^verbatim>\<open>Set(B)\<close> through the same handle gives
  exactly what \<^verbatim>\<open>Set(B)\<close> alone gives, the same file system and the same result: a
  \<^verbatim>\<open>Set\<close> replaces all prior content of the file and keeps nothing of an earlier payload.
  This holds without any condition. After a \<^verbatim>\<open>Set(B)\<close> that returns no error, a \<^verbatim>\<open>Get\<close>
  through a handle that is not expired returns exactly \<^verbatim>\<open>B\<close> and leaves the file system
  alone, when the wire format decodes what it encoded and the metadata block is shorter
  than \<open>2 ^ 32\<close> bytes; and a \<^verbatim>\<open>Get\<close> through a handle that is expired returns \<^verbatim>\<open>nil\<close>
  and removes the file.
\<close>

theorem Save_overwrites:
  fixes g :: "'a gob" and loc c A B fs now fs1 fs2
  defines "fs1 \<equiv> fst (snd (Set g loc c A fs))"
    and "fs2 \<equiv> fst (snd (Set g loc c B fs1))"
  shows "Set g loc c B fs1 = Set g loc c B fs
         \<and> (gob_sound g \<and> header_fits g c \<and> snd (snd (Set g loc c B fs1)) = None \<and>
              \<not> (Time_Before (Expiry c) now \<and> Expire c) \<longrightarrow>
            Get g loc c now fs2 = (c, fs2, Some B))
         \<and> (snd (snd (Set g loc c B fs1)) = None \<and> Time_Before (Expiry c) now \<and> Expire c \<longrightarrow>
            Get g loc c now fs2 = (c, fs2(path_Join loc (Identifier c) := None), None))"
proof -
  have same: "Set g loc c B fs1 = Set g loc c B fs"
    unfolding fs1_def by (rule Set_after_Set)
  have load: "Get g loc c now fs2 = (c, fs2, Some B)"
    if "gob_sound g" "header_fits g c" "snd (snd (Set g loc c B fs1)) = None"
      "\<not> (Time_Before (Expiry c) now \<and> Expire c)"
    unfolding fs2_def by (rule Get_after_Set [OF that(1) that(3) that(2) that(4)])
  have gone: "Get g loc c now fs2 = (c, fs2(path_Join loc (Identifier c) := None), None)"
    if ok: "snd (snd (Set g loc c B fs1)) = None" and due: "Time_Before (Expiry c) now \<and> Expire c"
  proof -
    from Set_ok_file [OF ok] obtain mb pb where
      "fs2 = fs1(path_Join loc (Identifier c) \<mapsto> Regular (PutUint32 (of_nat (length mb)) @ mb @ pb))"
      unfolding fs2_def by blast
    then have "fst (os_Remove fs2 (path_Join loc (Identifier c))) =
        fs2(path_Join loc (Identifier c) := None)"
      by (simp add: os_Remove_def)
    with due show ?thesis
      by (simp add: Get_eq [OF refl])
  qed
  from same load gone show ?thesis by blast
qed

text \<open>
  Claim C3, amended, at a concrete input: the items 1, 2, 3, then the items 7, 8, leave
  the file of the items 7, 8 alone; it is read back at time 105, and removed by a \<^verbatim>\<open>Get\<close>
  at time 200.
\<close>

theorem Save_overwrites_witness:
  "Set tlv_gob ''/tmp'' (handle_k True 105) [7, 8]
       (fst (snd (Set tlv_gob ''/tmp'' (handle_k True 105) [1, 2, 3] (disk_k []))))
     = Set tlv_gob ''/tmp'' (handle_k True 105) [7, 8] (disk_k [])
   \<and> Set tlv_gob ''/tmp'' (handle_k True 105) [7, 8] (disk_k [])
     = (handle_k True 105, disk_k file_78, None)
   \<and> Get tlv_gob ''/tmp'' (handle_k True 105) 105 (disk_k file_78)
     = (handle_k True 105, disk_k file_78, Some [7, 8])
   \<and> Get tlv_gob ''/tmp'' (handle_k True 105) 200 (disk_k file_78)
     = (handle_k True 105, Map.empty, None)"
proof -
  note T = Save_overwrites [where g = tlv_gob and loc = "''/tmp''" and c = "handle_k True 105"
      and A = "[1, 2, 3]" and B = "[7, 8]" and fs = "disk_k []"]
  have fs2: "fst (snd (Set tlv_gob ''/tmp'' (handle_k True 105) [7, 8]
       (fst (snd (Set tlv_gob ''/tmp'' (handle_k True 105) [1, 2, 3] (disk_k []))))))
     = disk_k file_78"
    by (simp add: Set_k_105 Set_k_105_78)
  have ok: "snd (snd (Set tlv_gob ''/tmp'' (handle_k True 105) [7, 8]
       (fst (snd (Set tlv_gob ''/tmp'' (handle_k True 105) [1, 2, 3] (disk_k [])))))) = None"
    by (simp add: Set_k_105 Set_k_105_78)
  have live: "\<not> (Time_Before (Expiry (handle_k True 105)) 105 \<and> Expire (handle_k True 105))"
    by (simp add: Time_Before_def)
  have due: "Time_Before (Expiry (handle_k True 105)) 200 \<and> Expire (handle_k True 105)"
    by (simp add: Time_Before_def)
  have a: "Set tlv_gob ''/tmp'' (handle_k True 105) [7, 8]
       (fst (snd (Set tlv_gob ''/tmp'' (handle_k True 105) [1, 2, 3] (disk_k []))))
     = Set tlv_gob ''/tmp'' (handle_k True 105) [7, 8] (disk_k [])"
    by (rule T [THEN conjunct1])
  have b: "Get tlv_gob ''/tmp'' (handle_k True 105) 105 (disk_k file_78)
     = (handle_k True 105, disk_k file_78, Some [7, 8])"
    using T [where now = 105, THEN conjunct2, THEN conjunct1, rule_format] tlv_gob_sound
      fits_k_105 ok live
    by (simp add: fs2)
  have c: "Get tlv_gob ''/tmp'' (handle_k True 105) 200 (disk_k file_78)
     = (handle_k True 105, Map.empty, None)"
    using T [where now = 200, THEN conjunct2, THEN conjunct2, rule_format] ok due
    by (simp add: fs2 path_tmp_k)
  from a b c show ?thesis by (simp add: Set_k_105_78)
qed

subsection \<open>Persisted metadata at a later \<^verbatim>\<open>New\<close>\<close>

text \<open>
  Claim C4 says that the persisted metadata overwrites every default field, also a
  persisted \<^verbatim>\<open>Expire\<close> that is false. Here a cache is opened with duration zero at time
  100 and saved; \<^verbatim>\<open>New\<close> at time 200 with a duration of 10 returns a handle with \<^verbatim>\<open>Expire\<close>
  set, from the new duration, and the persisted \<^verbatim>\<open>Expiry\<close> 100; the next \<^verbatim>\<open>Get\<close> removes the
  file.
\<close>

theorem New_keeps_default_Expire:
  "New tlv_gob ''/tmp'' ''k'' 0 100 Map.empty = (disk_k [], Some (handle_k False 100))
   \<and> Set tlv_gob ''/tmp'' (handle_k False 100) [1, 2, 3] (disk_k [])
       = (handle_k False 100, disk_k file_123_forever, None)
   \<and> New tlv_gob ''/tmp'' ''k'' 10 200 (disk_k file_123_forever)
       = (disk_k file_123_forever, Some (handle_k True 100))
   \<and> Get tlv_gob ''/tmp'' (handle_k True 100) 200 (disk_k file_123_forever)
       = (handle_k True 100, Map.empty, None)"
proof -
  have a: "New tlv_gob ''/tmp'' ''k'' 0 100 Map.empty = (disk_k [], Some (handle_k False 100))"
    by (simp add: New_fresh path_tmp_k default_handle_def Time_Add_def)
  have ok: "snd (snd (Set tlv_gob ''/tmp'' (handle_k False 100) [1, 2, 3] (disk_k []))) = None"
    by (simp add: Set_k_100)
  have b: "New tlv_gob ''/tmp'' ''k'' 10 200 (disk_k file_123_forever)
       = (disk_k file_123_forever, Some (handle_k True 100))"
    using New_after_Set [OF tlv_gob_sound ok reads_k_100, where ident = "''k''" and d = 10
        and now = 200]
    by (simp add: Set_k_100 zero_Time_def)
  have c: "Get tlv_gob ''/tmp'' (handle_k True 100) 200 (disk_k file_123_forever)
       = (handle_k True 100, Map.empty, None)"
    by (simp add: Get_eq [OF refl] Time_Before_def os_Remove_def path_tmp_k)
  from a b c show ?thesis by (simp add: Set_k_100)
qed

end
